theory Spec2Isabelle
  imports Main "HOL-Library.AList" "HOL-Library.Product_Lexorder"
begin

section \<open>Python values held in the session state\<close>

text \<open>
  The tracker keeps its data in \<^verbatim>\<open>st.session_state\<close>: a list of dicts
  (\<^verbatim>\<open>assignments\<close>) and an integer (\<^verbatim>\<open>assignment_counter\<close>). After an import
  the list is whatever \<^verbatim>\<open>json.load\<close> produced, so the store is modelled as a Python
  value of the kinds that JSON can denote. A dict is an association list in insertion
  order; lookup takes the first binding of a key. Floats are left out of the stored
  values: no operation of the tracker stores one.
\<close>

datatype pyval =
    PNone
  | PBool bool
  | PInt int
  | PStr string
  | PList "pyval list"
  | PDict "(string \<times> pyval) list"

type_synonym row = "(string \<times> pyval) list"

text \<open>
  Exceptions of the Python code, by class. \<open>ValidationError\<close> stands for the
  \<^verbatim>\<open>st.error\<close> branch of the creation form (line 154), which raises nothing.
  \<open>NotModelled\<close> marks an input of a library call on which this development does not
  say what the library does.
\<close>

datatype error =
    JSONDecodeError
  | KeyError
  | TypeError
  | AttributeError
  | ValueError
  | ValidationError
  | NotModelled

record session_state =
  assignments :: pyval
  assignment_counter :: int

text \<open>Lines 18 to 22: the state of a fresh session.\<close>

definition init_state :: session_state where
  "init_state = \<lparr>assignments = PList [], assignment_counter = 1\<rparr>"

text \<open>Truth value of a Python object, as \<^verbatim>\<open>if x:\<close> tests it.\<close>

fun truthy :: "pyval \<Rightarrow> bool" where
  "truthy PNone = False"
| "truthy (PBool b) = b"
| "truthy (PInt n) = (n \<noteq> 0)"
| "truthy (PStr s) = (s \<noteq> [])"
| "truthy (PList xs) = (xs \<noteq> [])"
| "truthy (PDict kvs) = (kvs \<noteq> [])"

text \<open>Subscription \<^verbatim>\<open>x[k]\<close> with a string key.\<close>

fun py_getitem :: "pyval \<Rightarrow> string \<Rightarrow> error + pyval" where
  "py_getitem (PDict kvs) k = (case map_of kvs k of None \<Rightarrow> Inl KeyError | Some v \<Rightarrow> Inr v)"
| "py_getitem _ k = Inl TypeError"

text \<open>
  Iteration \<^verbatim>\<open>for a in x\<close>: a list yields its elements, a string its characters,
  a dict its keys; the other values are not iterable.
\<close>

fun py_iter :: "pyval \<Rightarrow> error + pyval list" where
  "py_iter (PList xs) = Inr xs"
| "py_iter (PStr s) = Inr (map (\<lambda>c. PStr [c]) s)"
| "py_iter (PDict kvs) = Inr (map (\<lambda>kv. PStr (fst kv)) kvs)"
| "py_iter _ = Inl TypeError"

text \<open>The comprehension \<^verbatim>\<open>[a['id'] for a in ...]\<close> of line 468.\<close>

fun ids_of :: "pyval list \<Rightarrow> error + pyval list" where
  "ids_of [] = Inr []"
| "ids_of (a # as) =
     (case py_getitem a ''id'' of
        Inl e \<Rightarrow> Inl e
      | Inr v \<Rightarrow> (case ids_of as of Inl e \<Rightarrow> Inl e | Inr vs \<Rightarrow> Inr (v # vs)))"

text \<open>
  \<^verbatim>\<open>bool\<close> is a subclass of \<^verbatim>\<open>int\<close> in Python: \<^verbatim>\<open>True\<close> counts as 1 in
  comparisons and sums.
\<close>

fun as_int :: "pyval \<Rightarrow> int option" where
  "as_int (PInt n) = Some n"
| "as_int (PBool b) = Some (if b then 1 else 0)"
| "as_int _ = None"

definition int_of :: "pyval \<Rightarrow> int" where
  "int_of v = (case as_int v of Some n \<Rightarrow> n | None \<Rightarrow> 0)"

text \<open>
  \<^verbatim>\<open>max(ids) + 1\<close> of line 468. \<^verbatim>\<open>max\<close> of an empty list raises ValueError.
  When every id is an int or a bool the result is the greatest plus one. Otherwise a
  TypeError is raised, by a comparison inside \<^verbatim>\<open>max\<close> (values of different kinds,
  None, dicts) or by the addition (the greatest of strings or of lists is a string or a
  list, to which 1 cannot be added).
\<close>

fun py_max_plus_one :: "pyval list \<Rightarrow> error + int" where
  "py_max_plus_one [] = Inl ValueError"
| "py_max_plus_one (v # vs) =
     (if list_all (\<lambda>x. as_int x \<noteq> None) (v # vs)
      then Inr (fold max (map int_of vs) (int_of v) + 1)
      else Inl TypeError)"

section \<open>Export and import (lines 448 to 472)\<close>

text \<open>
  An uploaded file either is not JSON or is a JSON text; a JSON text is represented by
  the value it denotes. Every \<^typ>\<open>pyval\<close> is serialisable and \<^verbatim>\<open>json.load\<close>
  gives back what \<^verbatim>\<open>json.dumps\<close> was given.
\<close>

datatype upload = NotJSON | JSON pyval

definition json_dumps :: "pyval \<Rightarrow> upload" where
  "json_dumps v = JSON v"

fun json_load :: "upload \<Rightarrow> error + pyval" where
  "json_load NotJSON = Inl JSONDecodeError"
| "json_load (JSON v) = Inr v"

text \<open>
  Lines 448 to 461. With an empty store the handler only warns "No data to export" and
  offers no document: the result is \<open>None\<close>. The second argument is
  \<^verbatim>\<open>datetime.now().isoformat()\<close>.
\<close>

definition export_data :: "session_state \<Rightarrow> string \<Rightarrow> pyval option" where
  "export_data st now_iso =
     (if truthy (assignments st)
      then Some (PDict [(''assignments'', assignments st), (''export_date'', PStr now_iso)])
      else None)"

text \<open>
  Lines 465 to 472. The statements of the \<^verbatim>\<open>try\<close> block run in order, each on the
  state the previous one left; an exception ends the block with the state reached so
  far, and the handler reports "Import failed". The first component of the result is
  the exception caught, \<open>None\<close> when the success message is reached.
\<close>

definition import_handler :: "upload \<Rightarrow> session_state \<Rightarrow> error option \<times> session_state" where
  "import_handler uploaded_file st =
     (case json_load uploaded_file of
        Inl e \<Rightarrow> (Some e, st)
      | Inr import_data \<Rightarrow>
          (case py_getitem import_data ''assignments'' of
             Inl e \<Rightarrow> (Some e, st)
           | Inr a \<Rightarrow>
               (let st1 = st\<lparr>assignments := a\<rparr> in
                if truthy a then
                  (case py_iter a of
                     Inl e \<Rightarrow> (Some e, st1)
                   | Inr xs \<Rightarrow>
                       (case ids_of xs of
                          Inl e \<Rightarrow> (Some e, st1)
                        | Inr ids \<Rightarrow>
                            (case py_max_plus_one ids of
                               Inl e \<Rightarrow> (Some e, st1)
                             | Inr c \<Rightarrow> (None, st1\<lparr>assignment_counter := c\<rparr>))))
                else (None, st1\<lparr>assignment_counter := 1\<rparr>))))"

section \<open>Dates and their text form\<close>

text \<open>
  A \<^verbatim>\<open>date\<close> is (year, month, day); a \<^verbatim>\<open>datetime\<close> adds hour, minute, second
  and microsecond. Tuples are ordered lexicographically, which on valid dates is the
  order of time.
\<close>

type_synonym date = "nat \<times> nat \<times> nat"
type_synonym datetime = "nat \<times> nat \<times> nat \<times> nat \<times> nat \<times> nat \<times> nat"

definition digit :: "nat \<Rightarrow> char" where
  "digit n = ''0123456789'' ! (n mod 10)"

definition pad2 :: "nat \<Rightarrow> string" where
  "pad2 n = [digit (n div 10), digit n]"

definition pad4 :: "nat \<Rightarrow> string" where
  "pad4 n = [digit (n div 1000), digit (n div 100), digit (n div 10), digit n]"

text \<open>\<^verbatim>\<open>strftime('%Y-%m-%d')\<close> (line 141), for the four-digit years of the date picker.\<close>

fun strftime_ymd :: "date \<Rightarrow> string" where
  "strftime_ymd (y, m, d) = pad4 y @ ''-'' @ pad2 m @ ''-'' @ pad2 d"

text \<open>\<^verbatim>\<open>strftime('%Y-%m-%d %H:%M')\<close> (lines 142 and 320).\<close>

fun strftime_ymd_hm :: "datetime \<Rightarrow> string" where
  "strftime_ymd_hm (y, m, d, hh, mi, ss, us) =
     strftime_ymd (y, m, d) @ '' '' @ pad2 hh @ '':'' @ pad2 mi"

definition digit_val :: "char \<Rightarrow> nat option" where
  "digit_val c =
     (let n = (of_char c :: nat) in if 48 \<le> n \<and> n \<le> 57 then Some (n - 48) else None)"

fun number :: "nat \<Rightarrow> string \<Rightarrow> nat option" where
  "number acc [] = Some acc"
| "number acc (c # cs) =
     (case digit_val c of None \<Rightarrow> None | Some v \<Rightarrow> number (10 * acc + v) cs)"

definition leap_year :: "nat \<Rightarrow> bool" where
  "leap_year y = (y mod 4 = 0 \<and> (y mod 100 \<noteq> 0 \<or> y mod 400 = 0))"

definition days_in_month :: "nat \<Rightarrow> nat \<Rightarrow> nat" where
  "days_in_month y m =
     (if m = 2 then (if leap_year y then 29 else 28)
      else if m = 4 \<or> m = 6 \<or> m = 9 \<or> m = 11 then 30 else 31)"

definition valid_date :: "date \<Rightarrow> bool" where
  "valid_date dt =
     (case dt of (y, m, d) \<Rightarrow>
        1678 \<le> y \<and> y \<le> 2261 \<and> 1 \<le> m \<and> m \<le> 12 \<and> 1 \<le> d \<and> d \<le> days_in_month y m)"

text \<open>
  Reading a date back from the text \<^verbatim>\<open>YYYY-MM-DD\<close>. The years are those every
  pandas timestamp can hold.
\<close>

definition parse_ymd :: "string \<Rightarrow> date option" where
  "parse_ymd s =
     (if length s = 10 \<and> s ! 4 = CHR ''-'' \<and> s ! 7 = CHR ''-'' then
        (case (number 0 (take 4 s), number 0 (take 2 (drop 5 s)), number 0 (drop 8 s)) of
           (Some y, Some m, Some d) \<Rightarrow> if valid_date (y, m, d) then Some (y, m, d) else None
         | _ \<Rightarrow> None)
      else None)"

section \<open>Creating an assignment (lines 99 to 154)\<close>

text \<open>Lines 24 to 38: the options of the select boxes.\<close>

definition CHIEF_ENGINEERS :: "string list" where
  "CHIEF_ENGINEERS =
     [''Chief Engineer (Substation Design)'',
      ''Chief Engineer (Transmission Line Design)'',
      ''Chief Engineer (Telecom)'',
      ''Chief Engineer (Scada-III)'',
      ''Chief Engineer (Protection & Control)'',
      ''Chief Engineer (Standards & Specification)'']"

definition PRIORITY_LEVELS :: "string list" where
  "PRIORITY_LEVELS = [''Low'', ''Medium'', ''High'', ''Critical'']"

definition STATUS_OPTIONS :: "string list" where
  "STATUS_OPTIONS = [''Not Started'', ''In Progress'', ''Under Review'', ''Completed'', ''On Hold'']"

text \<open>
  \<^verbatim>\<open>st.selectbox("Assign To *", CHIEF_ENGINEERS)\<close> (line 107) returns one of its
  options, or \<^verbatim>\<open>None\<close> when there is nothing to select; no other value can reach the
  form. The choice is therefore one of six engineers, named as in the list, or none.
\<close>

datatype engineer =
    SubstationDesign
  | TransmissionLineDesign
  | Telecom
  | ScadaIII
  | ProtectionControl
  | StandardsSpecification

fun engineer_name :: "engineer \<Rightarrow> string" where
  "engineer_name SubstationDesign = ''Chief Engineer (Substation Design)''"
| "engineer_name TransmissionLineDesign = ''Chief Engineer (Transmission Line Design)''"
| "engineer_name Telecom = ''Chief Engineer (Telecom)''"
| "engineer_name ScadaIII = ''Chief Engineer (Scada-III)''"
| "engineer_name ProtectionControl = ''Chief Engineer (Protection & Control)''"
| "engineer_name StandardsSpecification = ''Chief Engineer (Standards & Specification)''"

text \<open>The Python value the select box returns for a choice.\<close>

definition selected :: "engineer option \<Rightarrow> pyval" where
  "selected choice = (case choice of None \<Rightarrow> PNone | Some e \<Rightarrow> PStr (engineer_name e))"

text \<open>The values of the form's widgets when it is submitted.\<close>

record creation_form =
  title :: string
  assigned_to :: "engineer option"
  priority :: string
  due_date :: date
  category :: string
  estimated_hours :: int
  status :: string
  description :: string
  deliverables :: string

text \<open>Lines 132 to 147: the dict of the new record, keys in the order written.\<close>

definition new_assignment :: "creation_form \<Rightarrow> datetime \<Rightarrow> int \<Rightarrow> pyval" where
  "new_assignment f now counter =
     PDict [(''id'', PInt counter),
            (''title'', PStr (title f)),
            (''assigned_to'', selected (assigned_to f)),
            (''priority'', PStr (priority f)),
            (''status'', PStr (status f)),
            (''category'', PStr (category f)),
            (''description'', PStr (description f)),
            (''deliverables'', PStr (deliverables f)),
            (''due_date'', PStr (strftime_ymd (due_date f))),
            (''created_date'', PStr (strftime_ymd_hm now)),
            (''estimated_hours'', PInt (estimated_hours f)),
            (''actual_hours'', PInt 0),
            (''progress_percentage'', PInt 0),
            (''comments'', PList [])]"

text \<open>
  Lines 130 to 154, on submission. The three required values are tested for truth: a
  string is true when it is not empty, and \<^verbatim>\<open>None\<close> is false. \<^verbatim>\<open>append\<close> exists on lists only; on any other store
  it raises AttributeError before the counter is touched.
\<close>

definition create_assignment ::
  "creation_form \<Rightarrow> datetime \<Rightarrow> session_state \<Rightarrow> error option \<times> session_state" where
  "create_assignment f now st =
     (if title f \<noteq> [] \<and> truthy (selected (assigned_to f)) \<and> description f \<noteq> [] then
        (case assignments st of
           PList xs \<Rightarrow>
             (None, st\<lparr>assignments := PList (xs @ [new_assignment f now (assignment_counter st)]),
                       assignment_counter := assignment_counter st + 1\<rparr>)
         | _ \<Rightarrow> (Some AttributeError, st))
      else (Some ValidationError, st))"

section \<open>Updating an assignment (lines 308 to 326)\<close>

text \<open>
  Lines 312 to 322: the body run on the matching dict. Item assignment keeps the place
  of a key that exists and adds a new key at the end, as \<^const>\<open>AList.update\<close> does.
  The three fields are always written; a comment is appended only when its text is not
  empty, after creating the \<^verbatim>\<open>comments\<close> list if the key is missing. When the key
  holds something that is not a list, \<^verbatim>\<open>append\<close> raises AttributeError and the
  three fields stay written.
\<close>

definition update_record ::
  "string \<Rightarrow> int \<Rightarrow> int \<Rightarrow> string \<Rightarrow> datetime \<Rightarrow> row \<Rightarrow> error option \<times> row" where
  "update_record new_status new_progress actual_hours comment now kvs =
     (let kvs1 = AList.update ''actual_hours'' (PInt actual_hours)
                   (AList.update ''progress_percentage'' (PInt new_progress)
                      (AList.update ''status'' (PStr new_status) kvs)) in
      if comment \<noteq> [] then
        (let kvs2 = (case map_of kvs1 ''comments'' of
                       None \<Rightarrow> AList.update ''comments'' (PList []) kvs1
                     | Some _ \<Rightarrow> kvs1) in
         case map_of kvs2 ''comments'' of
           Some (PList cs) \<Rightarrow>
             (None, AList.update ''comments''
                      (PList (cs @ [PDict [(''date'', PStr (strftime_ymd_hm now)),
                                           (''comment'', PStr comment)]])) kvs2)
         | _ \<Rightarrow> (Some AttributeError, kvs2))
      else (None, kvs1))"

text \<open>
  The id of a displayed row, as the data frame of the list page holds it
  (\<^verbatim>\<open>assignment['id']\<close>, lines 264 and 274): an integer, or NaN where the id column
  has a missing value among integers.
\<close>

datatype id_cell = IdInt int | IdNaN

text \<open>
  \<^verbatim>\<open>a['id'] == assignment['id']\<close> of line 311. A bool equals the integer it
  counts as, every other kind of value differs from an integer, and nothing equals NaN.
\<close>

fun py_eq_id :: "pyval \<Rightarrow> id_cell \<Rightarrow> bool" where
  "py_eq_id v (IdInt n) = (as_int v = Some n)"
| "py_eq_id v IdNaN = False"

text \<open>
  Lines 310 to 323: the loop over the store. An element that is not a dict, or a dict
  without \<^verbatim>\<open>id\<close>, raises at the comparison; the first match is updated and the loop
  stops (\<^verbatim>\<open>break\<close>).
\<close>

fun update_loop ::
  "id_cell \<Rightarrow> string \<Rightarrow> int \<Rightarrow> int \<Rightarrow> string \<Rightarrow> datetime \<Rightarrow> pyval list \<Rightarrow> error option \<times> pyval list" where
  "update_loop target new_status new_progress actual_hours comment now [] = (None, [])"
| "update_loop target new_status new_progress actual_hours comment now (a # as) =
     (case a of
        PDict kvs \<Rightarrow>
          (case map_of kvs ''id'' of
             None \<Rightarrow> (Some KeyError, a # as)
           | Some v \<Rightarrow>
               if py_eq_id v target then
                 (case update_record new_status new_progress actual_hours comment now kvs of
                    (e, kvs') \<Rightarrow> (e, PDict kvs' # as))
               else
                 (case update_loop target new_status new_progress actual_hours comment now as of
                    (e, as') \<Rightarrow> (e, a # as')))
      | _ \<Rightarrow> (Some TypeError, a # as))"

text \<open>
  The handler of the update form. The first component is the exception raised, \<open>None\<close>
  when "Assignment updated successfully!" is reached. A store that is a string or a
  dict iterates over strings, which cannot be subscripted by \<^verbatim>\<open>'id'\<close>.
\<close>

definition update_assignment ::
  "id_cell \<Rightarrow> string \<Rightarrow> int \<Rightarrow> int \<Rightarrow> string \<Rightarrow> datetime \<Rightarrow> session_state
     \<Rightarrow> error option \<times> session_state" where
  "update_assignment target new_status new_progress actual_hours comment now st =
     (case assignments st of
        PList xs \<Rightarrow>
          (case update_loop target new_status new_progress actual_hours comment now xs of
             (e, xs') \<Rightarrow> (e, st\<lparr>assignments := PList xs'\<rparr>))
      | other \<Rightarrow>
          (case py_iter other of
             Inl e \<Rightarrow> (Some e, st)
           | Inr [] \<Rightarrow> (None, st)
           | Inr (a # as) \<Rightarrow> (Some TypeError, st)))"

section \<open>Views over the store (lines 159 to 183 and 249 to 271)\<close>

text \<open>
  \<^verbatim>\<open>pd.DataFrame(st.session_state.assignments)\<close> for a store that is a list of
  dicts: one row per dict, in store order, and one column per key that occurs in some
  dict. A row without a key has a missing value there (\<open>None\<close> below). A frame keeps
  its columns when rows are filtered away.
\<close>

record data_frame =
  columns :: "string list"
  rows :: "row list"

definition DataFrame :: "row list \<Rightarrow> data_frame" where
  "DataFrame rs = \<lparr>columns = remdups (concat (map (map fst) rs)), rows = rs\<rparr>"

definition cell :: "row \<Rightarrow> string \<Rightarrow> pyval option" where
  "cell r k = map_of r k"

text \<open>
  \<^verbatim>\<open>df[df[col] == v]\<close> for a string \<open>v\<close>: KeyError when the frame has no such
  column; otherwise the rows whose cell is that string, in order.
\<close>

definition select_eq :: "string \<Rightarrow> string \<Rightarrow> data_frame \<Rightarrow> error + data_frame" where
  "select_eq col v df =
     (if col \<in> set (columns df)
      then Inr (df\<lparr>rows := filter (\<lambda>r. cell r col = Some (PStr v)) (rows df)\<rparr>)
      else Inl KeyError)"

text \<open>
  Lines 249 to 271 of \<^verbatim>\<open>manage_assignments\<close>: the rows the page lists for the three
  select boxes, each either \<^verbatim>\<open>"All"\<close> or a value to match. With an empty store the
  page returns before listing anything.
\<close>

definition manage_filter :: "string \<Rightarrow> string \<Rightarrow> string \<Rightarrow> row list \<Rightarrow> error + row list" where
  "manage_filter filter_engineer filter_status filter_priority rs =
     (if rs = [] then Inr []
      else
        (case (if filter_engineer \<noteq> ''All''
               then select_eq ''assigned_to'' filter_engineer (DataFrame rs)
               else Inr (DataFrame rs)) of
           Inl e \<Rightarrow> Inl e
         | Inr df1 \<Rightarrow>
             (case (if filter_status \<noteq> ''All''
                    then select_eq ''status'' filter_status df1 else Inr df1) of
                Inl e \<Rightarrow> Inl e
              | Inr df2 \<Rightarrow>
                  (case (if filter_priority \<noteq> ''All''
                         then select_eq ''priority'' filter_priority df2 else Inr df2) of
                     Inl e \<Rightarrow> Inl e
                   | Inr df3 \<Rightarrow> Inr (rows df3)))))"

text \<open>
  \<^verbatim>\<open>pd.to_datetime\<close> on one cell of the \<^verbatim>\<open>due_date\<close> column: a missing value
  becomes NaT (\<open>None\<close>), a text \<^verbatim>\<open>YYYY-MM-DD\<close> becomes midnight of that day. What
  pandas makes of other values is not modelled.
\<close>

fun to_datetime :: "pyval option \<Rightarrow> error + datetime option" where
  "to_datetime None = Inr None"
| "to_datetime (Some (PStr s)) =
     (case parse_ymd s of
        Some (y, m, d) \<Rightarrow> Inr (Some (y, m, d, 0, 0, 0, 0))
      | None \<Rightarrow> Inl NotModelled)"
| "to_datetime (Some _) = Inl NotModelled"

fun to_datetimes :: "pyval option list \<Rightarrow> error + datetime option list" where
  "to_datetimes [] = Inr []"
| "to_datetimes (c # cs) =
     (case to_datetime c of
        Inl e \<Rightarrow> Inl e
      | Inr t \<Rightarrow> (case to_datetimes cs of Inl e \<Rightarrow> Inl e | Inr ts \<Rightarrow> Inr (t # ts)))"

text \<open>A comparison with NaT is false.\<close>

fun before :: "datetime \<Rightarrow> datetime option \<Rightarrow> bool" where
  "before now None = False"
| "before now (Some t) = (t < now)"

text \<open>
  Line 182: \<^verbatim>\<open>len(df[pd.to_datetime(df['due_date']) < datetime.now()])\<close>.
\<close>

definition count_overdue :: "datetime \<Rightarrow> data_frame \<Rightarrow> error + nat" where
  "count_overdue now df =
     (if ''due_date'' \<in> set (columns df) then
        (case to_datetimes (map (\<lambda>r. cell r ''due_date'') (rows df)) of
           Inl e \<Rightarrow> Inl e
         | Inr ts \<Rightarrow> Inr (length (filter (before now) ts)))
      else Inl KeyError)"

text \<open>Lines 174 and 178: \<^verbatim>\<open>len(df[df[col] == v])\<close>.\<close>

definition count_eq :: "string \<Rightarrow> string \<Rightarrow> data_frame \<Rightarrow> error + nat" where
  "count_eq col v df =
     (case select_eq col v df of Inl e \<Rightarrow> Inl e | Inr d \<Rightarrow> Inr (length (rows d)))"

text \<open>The four numbers of the dashboard's top row, under the names the code gives them.\<close>

record dashboard_counts =
  total_assignments :: nat
  completed :: nat
  in_progress :: nat
  overdue :: nat

text \<open>
  Lines 159 to 183 of \<^verbatim>\<open>dashboard\<close>. With an empty store the page shows a welcome
  message and returns: no metric (\<open>None\<close>). Otherwise the four metrics are computed
  in the order of the code, so that a frame without a status column raises KeyError at
  line 174, before the overdue count of line 182 is reached.
\<close>

definition dashboard_metrics :: "datetime \<Rightarrow> row list \<Rightarrow> (error + dashboard_counts) option" where
  "dashboard_metrics now rs =
     (if rs = [] then None
      else Some
        (let df = DataFrame rs in
         case count_eq ''status'' ''Completed'' df of
           Inl e \<Rightarrow> Inl e
         | Inr c \<Rightarrow>
             (case count_eq ''status'' ''In Progress'' df of
                Inl e \<Rightarrow> Inl e
              | Inr ip \<Rightarrow>
                  (case count_overdue now df of
                     Inl e \<Rightarrow> Inl e
                   | Inr od \<Rightarrow>
                       Inr \<lparr>total_assignments = length (rows df), completed = c,
                            in_progress = ip, overdue = od\<rparr>))))"

section \<open>The update form of a row (lines 264 to 326)\<close>

text \<open>The rows of the data frame of a store that is a list of dicts.\<close>

fun store_rows :: "pyval \<Rightarrow> row list option" where
  "store_rows (PList []) = Some []"
| "store_rows (PList (PDict r # xs)) =
     (case store_rows (PList xs) of None \<Rightarrow> None | Some rs \<Rightarrow> Some (r # rs))"
| "store_rows _ = None"

text \<open>
  The \<^verbatim>\<open>id\<close> column of the data frame. Integers alone make an integer column. A
  missing value, from a dict without the key or with the id \<^verbatim>\<open>null\<close>, among integers
  makes it a column of floats, in which the missing value is NaN and an integer of at
  most 53 bits keeps its value. What pandas makes of other id columns (strings, bools,
  larger integers, no integer at all) is not modelled: the result is \<open>None\<close>.
\<close>

fun id_cell_of :: "pyval option \<Rightarrow> id_cell option" where
  "id_cell_of None = Some IdNaN"
| "id_cell_of (Some PNone) = Some IdNaN"
| "id_cell_of (Some (PInt n)) = Some (IdInt n)"
| "id_cell_of (Some _) = None"

fun id_cells :: "row list \<Rightarrow> id_cell list option" where
  "id_cells [] = Some []"
| "id_cells (r # rs) =
     (case id_cell_of (cell r ''id'') of
        None \<Rightarrow> None
      | Some c \<Rightarrow> (case id_cells rs of None \<Rightarrow> None | Some cs \<Rightarrow> Some (c # cs)))"

fun is_int_cell :: "id_cell \<Rightarrow> bool" where
  "is_int_cell (IdInt n) = True"
| "is_int_cell IdNaN = False"

fun cell_within :: "int \<Rightarrow> id_cell \<Rightarrow> bool" where
  "cell_within b (IdInt n) = (- b \<le> n \<and> n \<le> b)"
| "cell_within b IdNaN = True"

definition id_column :: "row list \<Rightarrow> id_cell list option" where
  "id_column rs =
     (case id_cells rs of
        None \<Rightarrow> None
      | Some cs \<Rightarrow>
          if list_ex is_int_cell cs \<and>
             list_all (cell_within (if IdNaN \<in> set cs then 9007199254740992
                                    else 9223372036854775807)) cs
          then Some cs else None)"

text \<open>
  The widgets of a row's form can be built (lines 275 to 306): the texts shown exist,
  the status is one of the options (line 295), the progress is an integer within the
  slider's range and the hours are an integer the number input accepts.
\<close>

definition row_form_ok :: "row \<Rightarrow> bool" where
  "row_form_ok r =
     (list_all (\<lambda>k. cell r k \<noteq> None)
        [''title'', ''assigned_to'', ''description'', ''deliverables'', ''priority'',
         ''due_date'', ''category''] \<and>
      (case cell r ''status'' of Some (PStr s) \<Rightarrow> s \<in> set STATUS_OPTIONS | _ \<Rightarrow> False) \<and>
      (case cell r ''progress_percentage'' of Some (PInt p) \<Rightarrow> 0 \<le> p \<and> p \<le> 100 | _ \<Rightarrow> False) \<and>
      (case cell r ''actual_hours'' of
         Some (PInt h) \<Rightarrow> 0 \<le> h \<and> h < 9007199254740992
       | _ \<Rightarrow> False))"

text \<open>
  Submitting the update form of the \<open>i\<close>-th record of the list page, the three filters
  being at "All". The id the loop of line 310 looks for is not typed in: it is the id
  cell of that row of the data frame (lines 264, 274 and 311). The result is \<open>None\<close>
  when this development does not say that the form is on the page: the store must be
  a list of dicts with a modelled id column, the forms up to that row must have
  different keys (line 290), every row's widgets must build, and the values submitted
  must be ones the widgets deliver.
\<close>

definition submit_update_form ::
  "nat \<Rightarrow> string \<Rightarrow> int \<Rightarrow> int \<Rightarrow> string \<Rightarrow> datetime \<Rightarrow> session_state
     \<Rightarrow> (error option \<times> session_state) option" where
  "submit_update_form i new_status new_progress actual_hours comment now st =
     (case store_rows (assignments st) of
        None \<Rightarrow> None
      | Some rs \<Rightarrow>
          (case id_column rs of
             None \<Rightarrow> None
           | Some ids \<Rightarrow>
               if i < length rs \<and> list_all row_form_ok rs \<and> distinct (take (Suc i) ids) \<and>
                  new_status \<in> set STATUS_OPTIONS \<and> 0 \<le> new_progress \<and> new_progress \<le> 100 \<and>
                  0 \<le> actual_hours
               then Some (update_assignment (ids ! i) new_status new_progress actual_hours
                            comment now st)
               else None))"

section \<open>Sessions\<close>





section \<open>Notions used to state the properties\<close>

text \<open>The id a stored record carries, if it is a dict with that key.\<close>

definition record_id :: "pyval \<Rightarrow> pyval option" where
  "record_id a = (case a of PDict r \<Rightarrow> map_of r ''id'' | _ \<Rightarrow> None)"

text \<open>The record is one the update loop matches with the given id.\<close>

definition has_id :: "id_cell \<Rightarrow> pyval \<Rightarrow> bool" where
  "has_id target a = (case record_id a of Some v \<Rightarrow> py_eq_id v target | None \<Rightarrow> False)"

text \<open>The record carries an integer id, and which.\<close>

definition has_int_id :: "pyval \<Rightarrow> bool" where
  "has_int_id a = (case record_id a of Some v \<Rightarrow> as_int v \<noteq> None | None \<Rightarrow> False)"

definition id_int :: "pyval \<Rightarrow> int" where
  "id_int a = (case record_id a of Some v \<Rightarrow> int_of v | None \<Rightarrow> 0)"

text \<open>Two rows agree on every key outside a given set.\<close>

definition same_outside :: "string set \<Rightarrow> row \<Rightarrow> row \<Rightarrow> bool" where
  "same_outside ks r r' = (\<forall>k. k \<notin> ks \<longrightarrow> map_of r' k = map_of r k)"

definition updated_keys :: "string set" where
  "updated_keys = {''status'', ''progress_percentage'', ''actual_hours'', ''comments''}"

text \<open>A record whose progress is an integer between 0 and 100, and a store of such.\<close>

definition progress_ok :: "pyval \<Rightarrow> bool" where
  "progress_ok a =
     (case a of
        PDict r \<Rightarrow>
          (case map_of r ''progress_percentage'' of
             Some (PInt p) \<Rightarrow> 0 \<le> p \<and> p \<le> 100
           | _ \<Rightarrow> False)
      | _ \<Rightarrow> False)"

definition progress_inv :: "session_state \<Rightarrow> bool" where
  "progress_inv st = (case assignments st of PList xs \<Rightarrow> list_all progress_ok xs | _ \<Rightarrow> False)"








text \<open>The row's due date is a text of the form the creation form writes.\<close>

definition has_due_date :: "row \<Rightarrow> bool" where
  "has_due_date r =
     (case cell r ''due_date'' of Some (PStr s) \<Rightarrow> parse_ymd s \<noteq> None | _ \<Rightarrow> False)"

text \<open>Midnight of the row's due date lies strictly before the given time.\<close>

definition due_before :: "datetime \<Rightarrow> row \<Rightarrow> bool" where
  "due_before now r =
     (case cell r ''due_date'' of
        Some (PStr s) \<Rightarrow>
          (case parse_ymd s of Some (y, m, d) \<Rightarrow> (y, m, d, 0, 0, 0, 0) < now | None \<Rightarrow> False)
      | _ \<Rightarrow> False)"

text \<open>The row passes every filter that is not \<^verbatim>\<open>"All"\<close>.\<close>

definition matches :: "string \<Rightarrow> string \<Rightarrow> string \<Rightarrow> row \<Rightarrow> bool" where
  "matches fe fs fp r =
     ((fe = ''All'' \<or> cell r ''assigned_to'' = Some (PStr fe)) \<and>
      (fs = ''All'' \<or> cell r ''status'' = Some (PStr fs)) \<and>
      (fp = ''All'' \<or> cell r ''priority'' = Some (PStr fp)))"

definition has_filter_columns :: "row \<Rightarrow> bool" where
  "has_filter_columns r =
     (cell r ''assigned_to'' \<noteq> None \<and> cell r ''status'' \<noteq> None \<and> cell r ''priority'' \<noteq> None)"

text \<open>The value is the name of one of the six engineers of the fixed list.\<close>

definition valid_engineer :: "pyval \<Rightarrow> bool" where
  "valid_engineer v = list_ex (\<lambda>n. v = PStr n) CHIEF_ENGINEERS"

text \<open>The keys of a record that no operation after its creation writes.\<close>

definition fixed_keys :: "string list" where
  "fixed_keys = [''id'', ''title'', ''assigned_to'', ''priority'', ''category'', ''description'',
                 ''deliverables'', ''due_date'', ''created_date'']"

section \<open>Example data\<close>

text \<open>
  A filled creation form, a time, and a store of three records of which the last two
  carry the same id, as an import can leave it.
\<close>

definition ex_form :: creation_form where
  "ex_form =
     \<lparr>title = ''Review Spec'', assigned_to = Some Telecom, priority = ''High'',
      due_date = (2026, 12, 1), category = ''Design Review'', estimated_hours = 8,
      status = ''Not Started'', description = ''x'', deliverables = []\<rparr>"

definition ex_now :: datetime where
  "ex_now = (2026, 11, 5, 9, 30, 0, 0)"

definition ex_records :: "pyval list" where
  "ex_records =
     [PDict [(''id'', PInt 1), (''title'', PStr ''A''), (''status'', PStr ''Not Started''),
             (''actual_hours'', PInt 0), (''progress_percentage'', PInt 0),
             (''comments'', PList [])],
      PDict [(''id'', PInt 2), (''title'', PStr ''B''), (''status'', PStr ''Not Started''),
             (''actual_hours'', PInt 0), (''progress_percentage'', PInt 0),
             (''comments'', PList [])],
      PDict [(''id'', PInt 2), (''title'', PStr ''C''), (''status'', PStr ''On Hold''),
             (''actual_hours'', PInt 5), (''progress_percentage'', PInt 10),
             (''comments'', PList [])]]"

definition ex_store :: session_state where
  "ex_store = \<lparr>assignments = PList ex_records, assignment_counter = 3\<rparr>"



definition ex_record :: "pyval \<Rightarrow> string \<Rightarrow> pyval" where
  "ex_record i t =
     PDict [(''id'', i), (''title'', PStr t),
            (''assigned_to'', PStr ''Chief Engineer (Telecom)''), (''priority'', PStr ''High''),
            (''status'', PStr ''Not Started''), (''category'', PStr ''Other''),
            (''description'', PStr ''x''), (''deliverables'', PStr []),
            (''due_date'', PStr ''2026-12-01''), (''created_date'', PStr ''2026-11-04 09:30''),
            (''estimated_hours'', PInt 8), (''actual_hours'', PInt 0),
            (''progress_percentage'', PInt 0), (''comments'', PList [])]"

definition ex_null_doc :: pyval where
  "ex_null_doc = PDict [(''assignments'', PList [ex_record PNone ''A'', ex_record (PInt 1) ''B''])]"

definition ex_null_store :: session_state where
  "ex_null_store =
     \<lparr>assignments = PList [ex_record PNone ''A'', ex_record (PInt 1) ''B''],
      assignment_counter = 1\<rparr>"

definition ex_int_store :: session_state where
  "ex_int_store =
     \<lparr>assignments = PList [ex_record (PInt 1) ''A'', ex_record (PInt 2) ''B''],
      assignment_counter = 3\<rparr>"

definition ex_rows :: "row list" where
  "ex_rows =
     [[(''id'', PInt 1), (''assigned_to'', PStr ''Chief Engineer (Telecom)''),
       (''priority'', PStr ''High''), (''status'', PStr ''Completed''),
       (''due_date'', PStr ''2026-10-01'')],
      [(''id'', PInt 2), (''assigned_to'', PStr ''Chief Engineer (Scada-III)''),
       (''priority'', PStr ''High''), (''status'', PStr ''In Progress''),
       (''due_date'', PStr ''2026-11-05'')],
      [(''id'', PInt 3), (''assigned_to'', PStr ''Chief Engineer (Telecom)''),
       (''priority'', PStr ''Low''), (''status'', PStr ''Not Started''),
       (''due_date'', PStr ''2026-12-24'')]]"

section \<open>The update loop\<close>

lemma update_record_frame:
  "update_record s p h c now r = (e, r') \<Longrightarrow> same_outside updated_keys r r'"
  by (auto simp: update_record_def same_outside_def updated_keys_def Let_def update_conv'
      split: if_splits option.splits pyval.splits)

lemma update_record_fields:
  "update_record s p h c now r = (e, r') \<Longrightarrow>
     map_of r' ''status'' = Some (PStr s) \<and> map_of r' ''progress_percentage'' = Some (PInt p)
     \<and> map_of r' ''actual_hours'' = Some (PInt h)"
  by (auto simp: update_record_def Let_def update_conv'
      split: if_splits option.splits pyval.splits)

lemma update_record_no_comment:
  "update_record s p h [] now r = (e, r') \<Longrightarrow> e = None \<and> map_of r' ''comments'' = map_of r ''comments''"
  by (auto simp: update_record_def Let_def update_conv')

lemma update_loop_cases:
  "update_loop t s p h c now xs = (e, ys) \<Longrightarrow>
     (ys = xs \<and> (e = None \<longrightarrow> (\<forall>a\<in>set xs. \<not> has_id t a))) \<or>
     (\<exists>pre r post r'. xs = pre @ PDict r # post \<and> (\<forall>a\<in>set pre. \<not> has_id t a) \<and>
        has_id t (PDict r) \<and> update_record s p h c now r = (e, r') \<and> ys = pre @ PDict r' # post)"
proof (induction xs arbitrary: e ys)
  case Nil
  then show ?case by simp
next
  case (Cons a as)
  show ?case
  proof (cases a)
    case (PDict kvs)
    show ?thesis
    proof (cases "map_of kvs ''id''")
      case None
      with Cons.prems PDict show ?thesis by auto
    next
      case (Some v)
      show ?thesis
      proof (cases "py_eq_id v t")
        case True
        with Cons.prems PDict Some obtain r' where
          r': "update_record s p h c now kvs = (e, r')" and ys: "ys = PDict r' # as"
          by (auto split: prod.splits)
        have "has_id t (PDict kvs)" using True Some by (simp add: has_id_def record_id_def)
        with r' ys PDict have "\<exists>pre r post r'. a # as = pre @ PDict r # post \<and> (\<forall>a\<in>set pre. \<not> has_id t a) \<and>
        has_id t (PDict r) \<and> update_record s p h c now r = (e, r') \<and> ys = pre @ PDict r' # post"
          by (intro exI[of _ "[]"] exI[of _ kvs] exI[of _ as] exI[of _ r']) simp
        then show ?thesis by blast
      next
        case False
        with Cons.prems PDict Some obtain as' where
          rec: "update_loop t s p h c now as = (e, as')" and ys: "ys = a # as'"
          by (auto split: prod.splits)
        have na: "\<not> has_id t a" using False Some PDict by (simp add: has_id_def record_id_def)
        from Cons.IH[OF rec] show ?thesis
        proof
          assume "as' = as \<and> (e = None \<longrightarrow> (\<forall>a\<in>set as. \<not> has_id t a))"
          with ys na show ?thesis by auto
        next
          assume "\<exists>pre r post r'. as = pre @ PDict r # post \<and> (\<forall>a\<in>set pre. \<not> has_id t a) \<and>
            has_id t (PDict r) \<and> update_record s p h c now r = (e, r') \<and> as' = pre @ PDict r' # post"
          then obtain pre r post r' where *: "as = pre @ PDict r # post" "\<forall>a\<in>set pre. \<not> has_id t a"
            "has_id t (PDict r)" "update_record s p h c now r = (e, r')" "as' = pre @ PDict r' # post"
            by blast
          with ys na have "a # as = (a # pre) @ PDict r # post \<and> (\<forall>a\<in>set (a # pre). \<not> has_id t a) \<and>
            has_id t (PDict r) \<and> update_record s p h c now r = (e, r') \<and> ys = (a # pre) @ PDict r' # post"
            by simp
          then show ?thesis by blast
        qed
      qed
    qed
  qed (use Cons.prems in auto)
qed

lemma update_loop_absent:
  "\<forall>a\<in>set xs. \<not> has_id t a \<Longrightarrow> snd (update_loop t s p h c now xs) = xs"
proof -
  obtain e ys where r: "update_loop t s p h c now xs = (e, ys)" by (cases "update_loop t s p h c now xs")
  assume "\<forall>a\<in>set xs. \<not> has_id t a"
  with update_loop_cases[OF r] have "ys = xs" by auto
  with r show ?thesis by simp
qed

lemma update_loop_absent_ok:
  "\<forall>a\<in>set xs. record_id a \<noteq> None \<and> \<not> has_id t a \<Longrightarrow> update_loop t s p h c now xs = (None, xs)"
  by (induction xs) (auto simp: record_id_def has_id_def split: pyval.splits option.splits)

lemmas eval_update = update_assignment_def update_record_def pad2_def pad4_def digit_def

section \<open>Creation and the progress of records\<close>

lemma chief_engineers_nonempty: "e \<in> set CHIEF_ENGINEERS \<Longrightarrow> e \<noteq> []"
  by (auto simp: CHIEF_ENGINEERS_def)

lemma engineer_names:
  "map engineer_name [SubstationDesign, TransmissionLineDesign, Telecom, ScadaIII,
                      ProtectionControl, StandardsSpecification] = CHIEF_ENGINEERS"
  by (simp add: CHIEF_ENGINEERS_def)

lemma engineer_name_listed: "engineer_name e \<in> set CHIEF_ENGINEERS"
  by (cases e) (simp_all add: CHIEF_ENGINEERS_def)

lemma valid_engineer_selected: "valid_engineer (selected choice) \<longleftrightarrow> choice \<noteq> None"
  using engineer_name_listed
  by (cases choice) (auto simp: valid_engineer_def selected_def list_ex_iff)

lemma truthy_selected: "truthy (selected choice) \<longleftrightarrow> choice \<noteq> None"
  using engineer_name_listed chief_engineers_nonempty
  by (cases choice) (auto simp: selected_def)

lemma new_assignment_progress_ok: "progress_ok (new_assignment f now c)"
  by (simp add: new_assignment_def progress_ok_def)


lemma update_record_progress_ok:
  "update_record s p h c now r = (e, r') \<Longrightarrow> 0 \<le> p \<Longrightarrow> p \<le> 100 \<Longrightarrow> progress_ok (PDict r')"
  using update_record_fields[of s p h c now r e r'] by (simp add: progress_ok_def)

lemma update_loop_progress_ok:
  assumes "update_loop t s p h c now xs = (e, ys)" "list_all progress_ok xs" "0 \<le> p" "p \<le> 100"
  shows "list_all progress_ok ys"
  using update_loop_cases[OF assms(1)] assms(2-) 
  by (auto dest: update_record_progress_ok)

lemma create_progress_inv:
  "progress_inv st \<Longrightarrow> progress_inv (snd (create_assignment f now st))"
  by (auto simp: progress_inv_def create_assignment_def new_assignment_progress_ok split: pyval.splits)

lemma update_progress_inv:
  assumes "progress_inv st" "0 \<le> p" "p \<le> 100"
  shows "progress_inv (snd (update_assignment t s p h c now st))"
proof -
  from assms(1) obtain xs where xs: "assignments st = PList xs" and ok: "list_all progress_ok xs"
    by (auto simp: progress_inv_def split: pyval.splits)
  obtain e ys where r: "update_loop t s p h c now xs = (e, ys)"
    by (cases "update_loop t s p h c now xs")
  from update_loop_progress_ok[OF r ok assms(2,3)] xs r show ?thesis
    by (simp add: update_assignment_def progress_inv_def)
qed

lemma import_installs:
  "py_getitem d ''assignments'' = Inr a \<Longrightarrow> assignments (snd (import_handler (JSON d) st)) = a"
  by (simp add: import_handler_def Let_def split: sum.splits)

section \<open>Ids in a session without import\<close>












section \<open>The counter an import computes\<close>

lemma ids_of_int_records:
  "\<forall>a\<in>set xs. has_int_id a \<Longrightarrow>
     \<exists>vs. ids_of xs = Inr vs \<and> map int_of vs = map id_int xs \<and> list_all (\<lambda>x. as_int x \<noteq> None) vs"
proof (induction xs)
  case Nil
  then show ?case by simp
next
  case (Cons a as)
  then obtain vs where vs: "ids_of as = Inr vs" "map int_of vs = map id_int as"
    "list_all (\<lambda>x. as_int x \<noteq> None) vs" by auto
  from Cons.prems have "has_int_id a" by simp
  then obtain r v where a: "a = PDict r" "map_of r ''id'' = Some v" "as_int v \<noteq> None"
    by (auto simp: has_int_id_def record_id_def split: pyval.splits option.splits)
  then have "id_int a = int_of v" by (simp add: id_int_def record_id_def)
  with a vs show ?case by simp
qed

lemma py_max_plus_one_ints:
  assumes "vs \<noteq> []" "list_all (\<lambda>x. as_int x \<noteq> None) vs"
  shows "py_max_plus_one vs = Inr (Max (set (map int_of vs)) + 1)"
proof -
  from assms(1) obtain v ws where vs: "vs = v # ws" by (cases vs) auto
  have "Max (set (int_of v # map int_of ws)) = fold max (map int_of ws) (int_of v)"
    by (rule Max.set_eq_fold)
  with assms(2) vs show ?thesis by simp
qed

section \<open>Ids across imports\<close>






















section \<open>Dates written and read back\<close>

lemma digit_val_digit: "digit_val (digit n) = Some (n mod 10)"
proof -
  have "n mod 10 = 0 \<or> n mod 10 = 1 \<or> n mod 10 = 2 \<or> n mod 10 = 3 \<or> n mod 10 = 4 \<or>
        n mod 10 = 5 \<or> n mod 10 = 6 \<or> n mod 10 = 7 \<or> n mod 10 = 8 \<or> n mod 10 = 9"
    by presburger
  then show ?thesis
    unfolding digit_def digit_val_def by (elim disjE) (simp_all add: Let_def)
qed

lemma number_pad2: "n < 100 \<Longrightarrow> number 0 (pad2 n) = Some n"
  by (simp add: pad2_def digit_val_digit)

lemma number_pad4: "n < 10000 \<Longrightarrow> number 0 (pad4 n) = Some n"
proof -
  assume n: "n < 10000"
  have a: "n = 10 * (n div 10) + n mod 10" by simp
  have "n div 10 div 10 = n div 100" "n div 100 div 10 = n div 1000"
    by (simp_all add: div_mult2_eq[symmetric])
  then have b: "n div 10 = 10 * (n div 100) + n div 10 mod 10"
    and c: "n div 100 = 10 * (n div 1000) + n div 100 mod 10"
    by (metis div_mult_mod_eq mult.commute)+
  have "1000 * (n div 1000) + 100 * (n div 100 mod 10) + 10 * (n div 10 mod 10) + n mod 10 = n"
    using a b c by linarith
  with n show ?thesis by (simp add: pad4_def digit_val_digit)
qed

lemma parse_strftime: "valid_date d \<Longrightarrow> parse_ymd (strftime_ymd d) = Some d"
proof -
  assume v: "valid_date d"
  obtain y m dd where d: "d = (y, m, dd)" by (cases d) auto
  from v d have b: "y < 10000" "m < 100" "dd < 100"
    by (auto simp: valid_date_def days_in_month_def split: if_splits)
  have l: "length (strftime_ymd d) = 10" by (simp add: d pad2_def pad4_def)
  have t: "take 4 (strftime_ymd d) = pad4 y" "take 2 (drop 5 (strftime_ymd d)) = pad2 m"
    "drop 8 (strftime_ymd d) = pad2 dd" "strftime_ymd d ! 4 = CHR ''-''" "strftime_ymd d ! 7 = CHR ''-''"
    by (simp_all add: d pad2_def pad4_def)
  show ?thesis unfolding parse_ymd_def l t using v b d
    by (simp add: number_pad2 number_pad4)
qed

lemmas eval_date = parse_ymd_def digit_val_def valid_date_def days_in_month_def leap_year_def

text \<open>
  A record made by the creation form, for a valid due date, has a due date that reads
  back, and has the three columns the list page filters on.
\<close>

lemma new_assignment_row:
  "valid_date (due_date f) \<Longrightarrow>
     \<exists>r. new_assignment f now c = PDict r \<and> has_due_date r \<and> has_filter_columns r"
  by (simp add: new_assignment_def has_due_date_def has_filter_columns_def cell_def parse_strftime)

section \<open>Data frames\<close>

lemma column_of_DataFrame:
  "k \<in> set (columns (DataFrame rs)) \<longleftrightarrow> (\<exists>r\<in>set rs. cell r k \<noteq> None)"
  by (auto simp: DataFrame_def cell_def map_of_eq_None_iff)

lemma rows_of_DataFrame: "rows (DataFrame rs) = rs"
  by (simp add: DataFrame_def)

lemma to_datetimes_due:
  "\<forall>r\<in>set rs. has_due_date r \<Longrightarrow>
     \<exists>ts. to_datetimes (map (\<lambda>r. cell r ''due_date'') rs) = Inr ts \<and>
          length (filter (before now) ts) = length (filter (due_before now) rs)"
proof (induction rs)
  case Nil
  then show ?case by simp
next
  case (Cons r rs)
  then obtain ts where ts: "to_datetimes (map (\<lambda>r. cell r ''due_date'') rs) = Inr ts"
    "length (filter (before now) ts) = length (filter (due_before now) rs)" by auto
  from Cons.prems have "has_due_date r" by simp
  then obtain s y m d where s: "cell r ''due_date'' = Some (PStr s)" "parse_ymd s = Some (y, m, d)"
    by (auto simp: has_due_date_def split: option.splits pyval.splits)
  then have t: "to_datetime (cell r ''due_date'') = Inr (Some (y, m, d, 0, 0, 0, 0))" by simp
  have b: "before now (Some (y, m, d, 0, 0, 0, 0)) = due_before now r"
    using s by (simp add: due_before_def)
  from ts t b show ?case by simp
qed

lemma count_overdue_due:
  assumes "rs \<noteq> []" "\<forall>r\<in>set rs. has_due_date r"
  shows "count_overdue now (DataFrame rs) = Inr (length (filter (due_before now) rs))"
proof -
  from assms obtain r where "r \<in> set rs" "has_due_date r" by (cases rs) auto
  then have "\<exists>r\<in>set rs. cell r ''due_date'' \<noteq> None"
    by (auto simp: has_due_date_def split: option.splits)
  then have col: "''due_date'' \<in> set (columns (DataFrame rs))" by (simp add: column_of_DataFrame)
  from to_datetimes_due[OF assms(2), of now] obtain ts where
    "to_datetimes (map (\<lambda>r. cell r ''due_date'') rs) = Inr ts"
    "length (filter (before now) ts) = length (filter (due_before now) rs)" by blast
  with col show ?thesis
    by (simp add: count_overdue_def rows_of_DataFrame)
qed

lemma count_eq_status:
  assumes "\<exists>r\<in>set rs. cell r ''status'' \<noteq> None"
  shows "count_eq ''status'' v (DataFrame rs) =
           Inr (length (filter (\<lambda>r. cell r ''status'' = Some (PStr v)) rs))"
proof -
  from assms have "''status'' \<in> set (columns (DataFrame rs))" by (simp add: column_of_DataFrame)
  then show ?thesis by (simp add: count_eq_def select_eq_def rows_of_DataFrame)
qed

lemma dashboard_metrics_counts:
  assumes "rs \<noteq> []" "\<forall>r\<in>set rs. has_due_date r" "\<exists>r\<in>set rs. cell r ''status'' \<noteq> None"
  shows "dashboard_metrics now rs =
           Some (Inr \<lparr>total_assignments = length rs,
                      completed = length (filter (\<lambda>r. cell r ''status'' = Some (PStr ''Completed'')) rs),
                      in_progress = length (filter (\<lambda>r. cell r ''status'' = Some (PStr ''In Progress'')) rs),
                      overdue = length (filter (due_before now) rs)\<rparr>)"
  using assms(1) count_overdue_due[OF assms(1,2)] count_eq_status[OF assms(3)]
  by (simp add: dashboard_metrics_def rows_of_DataFrame)

lemma cell_update_other: "k \<noteq> k' \<Longrightarrow> cell (AList.update k v r) k' = cell r k'"
  by (simp add: cell_def update_conv')

lemma manage_filter_matches:
  assumes "\<forall>r\<in>set rs. has_filter_columns r"
  shows "manage_filter fe fs fp rs = Inr (filter (matches fe fs fp) rs)"
proof (cases "rs = []")
  case True
  then show ?thesis by (simp add: manage_filter_def)
next
  case False
  then obtain r where "r \<in> set rs" by (cases rs) auto
  with assms have "has_filter_columns r" by blast
  with \<open>r \<in> set rs\<close> have cols: "''assigned_to'' \<in> set (columns (DataFrame rs))"
    "''status'' \<in> set (columns (DataFrame rs))" "''priority'' \<in> set (columns (DataFrame rs))"
    unfolding column_of_DataFrame has_filter_columns_def by blast+
  have eq: "filter (matches fe fs fp) rs =
        filter (\<lambda>r. fp = ''All'' \<or> cell r ''priority'' = Some (PStr fp))
          (filter (\<lambda>r. fs = ''All'' \<or> cell r ''status'' = Some (PStr fs))
             (filter (\<lambda>r. fe = ''All'' \<or> cell r ''assigned_to'' = Some (PStr fe)) rs))"
    by (auto simp: matches_def intro: filter_cong)
  show ?thesis unfolding eq using False cols
    by (simp add: manage_filter_def select_eq_def rows_of_DataFrame DataFrame_def)
qed

section \<open>The id a form submits\<close>

lemma store_rows_records: "store_rows (PList xs) = Some rs \<Longrightarrow> xs = map PDict rs"
proof (induction xs arbitrary: rs)
  case Nil
  then show ?case by simp
next
  case (Cons a as)
  then show ?case by (cases a) (auto split: option.splits)
qed

lemma id_cells_nth:
  "id_cells rs = Some cs \<Longrightarrow>
     length cs = length rs \<and> (\<forall>i<length rs. id_cell_of (cell (rs ! i) ''id'') = Some (cs ! i))"
proof (induction rs arbitrary: cs)
  case Nil
  then show ?case by simp
next
  case (Cons r rs)
  then obtain c cs' where c: "id_cell_of (cell r ''id'') = Some c" and cs': "id_cells rs = Some cs'"
    and cs: "cs = c # cs'" by (auto split: option.splits)
  from Cons.IH[OF cs'] c cs show ?case by (auto simp: nth_Cons split: nat.splits)
qed

lemma submitted_id_is_in_store:
  assumes "assignments st = PList xs"
    and "\<forall>a\<in>set xs. \<exists>n. record_id a = Some (PInt n)"
    and "submit_update_form i s p h c now st = Some res"
  shows "i < length xs \<and>
         (\<exists>n. record_id (xs ! i) = Some (PInt n) \<and> has_id (IdInt n) (xs ! i) \<and>
              res = update_assignment (IdInt n) s p h c now st)"
proof -
  from assms(1,3) obtain rs ids where rs: "store_rows (PList xs) = Some rs"
    and ids: "id_cells rs = Some ids" and i: "i < length rs"
    and res: "res = update_assignment (ids ! i) s p h c now st"
    by (auto simp: submit_update_form_def id_column_def split: option.splits if_splits)
  note xs = store_rows_records[OF rs]
  from xs i have ix: "i < length xs" and r: "xs ! i = PDict (rs ! i)" by simp_all
  from assms(2) ix obtain n where n: "record_id (xs ! i) = Some (PInt n)"
    by (metis nth_mem)
  with r have "cell (rs ! i) ''id'' = Some (PInt n)" by (simp add: record_id_def cell_def)
  with id_cells_nth[OF ids] i have "ids ! i = IdInt n" by auto
  with res n ix show ?thesis by (auto simp: has_id_def)
qed

section \<open>Import is not atomic\<close>

text \<open>
  C1. The specification says that whenever the import fails, the store and the counter
  are as before the call. The code assigns the new list (line 467) before it computes the counter
  (line 468). On the document \<^verbatim>\<open>{"assignments": [{"title": "x"}]}\<close> the
  comprehension raises KeyError for the missing id: the import is reported as failed,
  the counter is the old one, and the store already holds the record of the document.
\<close>

theorem import_failure_replaces_store:
  "import_handler (JSON (PDict [(''assignments'', PList [PDict [(''title'', PStr ''x'')]])]))
     \<lparr>assignments = PList [PDict [(''id'', PInt 1), (''title'', PStr ''a'')]],
      assignment_counter = 2\<rparr>
   = (Some KeyError,
      \<lparr>assignments = PList [PDict [(''title'', PStr ''x'')]], assignment_counter = 2\<rparr>)"
  by (simp add: import_handler_def)

section \<open>Export followed by import\<close>

text \<open>
  C2. The specification says that for every store, the empty one included, importing
  the exported document gives back the store, with the counter at the greatest id plus one, or at 1
  for the empty store. For the empty store the export handler produces no document at
  all: it only warns "No data to export" (lines 449 and 460 to 461).
\<close>

theorem export_of_empty_store_gives_no_document:
  "export_data init_state ''2026-11-05T09:30:00'' = None"
  by (simp add: export_data_def init_state_def)

text \<open>
  C2, as the code has it. For every store that is a non-empty list of records with
  integer ids, the export produces a document, and importing that document, into any
  session, succeeds and makes the store that same list, same records in the same order,
  with the counter at the greatest id plus one. The counter 1 is what the import of a
  document with an empty list of assignments leaves.
\<close>

theorem export_import_roundtrip:
  assumes "assignments st = PList xs" and "xs \<noteq> []" and "\<forall>a\<in>set xs. has_int_id a"
  shows "(\<exists>d. export_data st now_iso = Some d \<and>
              import_handler (json_dumps d) st0 =
                (None, st0\<lparr>assignments := PList xs,
                           assignment_counter := Max (id_int ` set xs) + 1\<rparr>)) \<and>
         import_handler (JSON (PDict [(''assignments'', PList [])])) st0 =
           (None, st0\<lparr>assignments := PList [], assignment_counter := 1\<rparr>)"
proof -
  from ids_of_int_records[OF assms(3)] obtain vs where vs: "ids_of xs = Inr vs"
    "map int_of vs = map id_int xs" "list_all (\<lambda>x. as_int x \<noteq> None) vs" by blast
  from vs(2) assms(2) have ne: "vs \<noteq> []" by auto
  have "set (map int_of vs) = id_int ` set xs" using vs(2) by simp
  with py_max_plus_one_ints[OF ne vs(3)]
  have m: "py_max_plus_one vs = Inr (Max (id_int ` set xs) + 1)" by simp
  have e: "export_data st now_iso =
             Some (PDict [(''assignments'', PList xs), (''export_date'', PStr now_iso)])"
    using assms(1,2) by (simp add: export_data_def)
  have "import_handler (json_dumps (PDict [(''assignments'', PList xs), (''export_date'', PStr now_iso)])) st0 =
                (None, st0\<lparr>assignments := PList xs,
                           assignment_counter := Max (id_int ` set xs) + 1\<rparr>)"
    using assms(2) vs(1) m by (simp add: import_handler_def json_dumps_def)
  moreover have "import_handler (JSON (PDict [(''assignments'', PList [])])) st0 =
           (None, st0\<lparr>assignments := PList [], assignment_counter := 1\<rparr>)"
    by (simp add: import_handler_def)
  ultimately show ?thesis using e by simp
qed

theorem export_import_roundtrip_witness:
  "export_data ex_store ''2026-11-05T09:30:00''
     = Some (PDict [(''assignments'', PList ex_records), (''export_date'', PStr ''2026-11-05T09:30:00'')]) \<and>
   import_handler
     (json_dumps (PDict [(''assignments'', PList ex_records), (''export_date'', PStr ''2026-11-05T09:30:00'')]))
     init_state
     = (None, \<lparr>assignments = PList ex_records, assignment_counter = 3\<rparr>)"
proof -
  have h1: "assignments ex_store = PList ex_records" by (simp add: ex_store_def)
  have h2: "ex_records \<noteq> []" by (simp add: ex_records_def)
  have h3: "\<forall>a\<in>set ex_records. has_int_id a"
    by (simp add: ex_records_def has_int_id_def record_id_def)
  have m: "Max (id_int ` set ex_records) + 1 = 3"
    by (simp add: ex_records_def id_int_def record_id_def int_of_def)
  have e: "export_data ex_store ''2026-11-05T09:30:00''
     = Some (PDict [(''assignments'', PList ex_records), (''export_date'', PStr ''2026-11-05T09:30:00'')])"
    using h1 h2 by (simp add: export_data_def)
  from export_import_roundtrip [OF h1 h2 h3, of "''2026-11-05T09:30:00''" init_state] e m
  show ?thesis by (simp add: init_state_def)
qed

section \<open>Updating an id that is not in the store\<close>

text \<open>
  C3. The specification says that for an id that no record carries, the update fails
  with NotFoundError and changes no record. The id is never typed in: the form submits
  the id cell of its row of the data frame. Upload a document of two complete records
  of which the first has the id \<^verbatim>\<open>null\<close> and the second the id 1. The import
  installs the two records (and reports a failure, the counter staying 1). On the list
  page the id column holds a missing value among integers, so the first row's id cell
  is NaN. Submitting the first row's form looks for NaN, which no record carries, since
  nothing equals NaN. The loop of lines 310 to 323 ends without a match and the handler
  reports "Assignment updated successfully!": no error is raised and nothing is
  changed, although a status, a progress, hours and a comment were submitted.
\<close>

theorem update_of_unmatched_row_reports_success:
  "import_handler (JSON ex_null_doc) init_state = (Some TypeError, ex_null_store) \<and>
   Option.bind (store_rows (assignments ex_null_store)) id_column = Some [IdNaN, IdInt 1] \<and>
   list_all (\<lambda>a. \<not> has_id IdNaN a) [ex_record PNone ''A'', ex_record (PInt 1) ''B''] \<and>
   submit_update_form 0 ''Completed'' 100 3 ''done'' ex_now ex_null_store
     = Some (None, ex_null_store)"
  by (simp add: import_handler_def init_state_def ex_null_doc_def ex_null_store_def ex_record_def
      submit_update_form_def id_column_def row_form_ok_def cell_def STATUS_OPTIONS_def
      has_id_def record_id_def eval_update)

text \<open>
  C3, as the code has it. The code has no NotFoundError. Whenever no record of the store
  matches the id submitted, the update leaves the whole session state unchanged, and
  when every record is a dict with an id key it raises nothing and reports success.
  In a store whose records all carry integer ids this cannot happen from the page: the
  id a form submits is the id of the record of its row, which is in the store.
\<close>

theorem update_without_match:
  assumes "assignments st = PList xs"
  shows "((\<forall>a\<in>set xs. \<not> has_id target a) \<longrightarrow>
            snd (update_assignment target s p h c now st) = st \<and>
            ((\<forall>a\<in>set xs. record_id a \<noteq> None) \<longrightarrow>
               update_assignment target s p h c now st = (None, st))) \<and>
         ((\<forall>a\<in>set xs. \<exists>n. record_id a = Some (PInt n)) \<longrightarrow>
            (\<forall>i res. submit_update_form i s p h c now st = Some res \<longrightarrow>
               i < length xs \<and>
               (\<exists>n. record_id (xs ! i) = Some (PInt n) \<and> has_id (IdInt n) (xs ! i) \<and>
                    res = update_assignment (IdInt n) s p h c now st)))"
proof -
  have 1: "snd (update_assignment target s p h c now st) = st"
    if "\<forall>a\<in>set xs. \<not> has_id target a"
  proof -
    have "snd (update_loop target s p h c now xs) = xs"
      using that by (rule update_loop_absent)
    then show ?thesis
      using assms by (cases "update_loop target s p h c now xs") (simp add: update_assignment_def)
  qed
  have 2: "update_assignment target s p h c now st = (None, st)"
    if "\<forall>a\<in>set xs. \<not> has_id target a" "\<forall>a\<in>set xs. record_id a \<noteq> None"
  proof -
    from that have "\<forall>a\<in>set xs. record_id a \<noteq> None \<and> \<not> has_id target a" by blast
    then have "update_loop target s p h c now xs = (None, xs)" by (rule update_loop_absent_ok)
    with assms show ?thesis by (simp add: update_assignment_def)
  qed
  from 1 2 submitted_id_is_in_store[OF assms] show ?thesis by blast
qed

text \<open>
  On the store the document above leaves, an update for NaN changes nothing and reports
  success; on a store of two complete records with the ids 1 and 2, the second row's
  form submits the id 2.
\<close>

theorem update_without_match_witness:
  "update_assignment IdNaN ''Completed'' 100 3 ''done'' ex_now ex_null_store = (None, ex_null_store) \<and>
   submit_update_form 1 ''Completed'' 100 3 ''done'' ex_now ex_int_store
     = Some (update_assignment (IdInt 2) ''Completed'' 100 3 ''done'' ex_now ex_int_store)"
proof -
  have h1: "assignments ex_null_store =  PList [ex_record PNone ''A'', ex_record (PInt 1) ''B'']"
    by (simp add: ex_null_store_def)
  have h2: "\<forall>a\<in>set [ex_record PNone ''A'', ex_record (PInt 1) ''B'']. \<not> has_id IdNaN a"
    by (simp add: has_id_def record_id_def ex_record_def)
  have h3: "\<forall>a\<in>set [ex_record PNone ''A'', ex_record (PInt 1) ''B'']. record_id a \<noteq> None"
    by (simp add: record_id_def ex_record_def)
  have k1: "assignments ex_int_store = PList [ex_record (PInt 1) ''A'', ex_record (PInt 2) ''B'']"
    by (simp add: ex_int_store_def)
  have k2: "\<forall>a\<in>set [ex_record (PInt 1) ''A'', ex_record (PInt 2) ''B''].
              \<exists>n. record_id a = Some (PInt n)"
    by (simp add: record_id_def ex_record_def)
  obtain res where k3: "submit_update_form 1 ''Completed'' 100 3 ''done'' ex_now ex_int_store = Some res"
    by (simp add: submit_update_form_def ex_int_store_def ex_record_def id_column_def
        row_form_ok_def cell_def STATUS_OPTIONS_def)
  have n: "record_id ([ex_record (PInt 1) ''A'', ex_record (PInt 2) ''B''] ! 1) = Some (PInt 2)"
    by (simp add: record_id_def ex_record_def)
  from update_without_match [OF h1, of IdNaN "''Completed''" 100 3 "''done''" ex_now] h2 h3
  have a: "update_assignment IdNaN ''Completed'' 100 3 ''done'' ex_now ex_null_store = (None, ex_null_store)"
    by blast
  from update_without_match [OF k1, of IdNaN "''Completed''" 100 3 "''done''" ex_now] k2 k3
  obtain m where "record_id ([ex_record (PInt 1) ''A'', ex_record (PInt 2) ''B''] ! 1) = Some (PInt m)"
    and "res = update_assignment (IdInt m) ''Completed'' 100 3 ''done'' ex_now ex_int_store"
    by blast
  with n k3 have "submit_update_form 1 ''Completed'' 100 3 ''done'' ex_now ex_int_store
     = Some (update_assignment (IdInt 2) ''Completed'' 100 3 ''done'' ex_now ex_int_store)"
    by simp
  with a show ?thesis by (rule conjI)
qed

section \<open>Creation with a required field missing\<close>

text \<open>
  C4. When the title is empty, or the description is empty, or the value given for
  assigned_to is not the name of one of the six engineers, the creation is refused with
  the error message, and the session state, store and counter, is returned as it was.
  The select box delivers one of the six engineers or no value, and line 131 refuses the
  absent value. Conversely, with a title, a description and an engineer the creation is
  not refused.
\<close>

theorem create_rejects_missing_fields:
  "(title f = [] \<or> \<not> valid_engineer (selected (assigned_to f)) \<or> description f = [] \<longrightarrow>
      create_assignment f now st = (Some ValidationError, st)) \<and>
   (title f \<noteq> [] \<and> valid_engineer (selected (assigned_to f)) \<and> description f \<noteq> [] \<longrightarrow>
      fst (create_assignment f now st) \<noteq> Some ValidationError)"
  by (auto simp: create_assignment_def truthy_selected valid_engineer_selected split: pyval.splits)

text \<open>One refusal for each of the three fields, on the example store.\<close>

theorem create_rejects_missing_fields_witness:
  "create_assignment (ex_form\<lparr>title := []\<rparr>) ex_now ex_store = (Some ValidationError, ex_store) \<and>
   create_assignment (ex_form\<lparr>assigned_to := None\<rparr>) ex_now ex_store = (Some ValidationError, ex_store) \<and>
   create_assignment (ex_form\<lparr>description := []\<rparr>) ex_now ex_store = (Some ValidationError, ex_store)"
proof -
  have v: "\<not> valid_engineer (selected (assigned_to (ex_form\<lparr>assigned_to := None\<rparr>)))"
    by (simp add: valid_engineer_selected)
  from create_rejects_missing_fields [of "ex_form\<lparr>title := []\<rparr>" ex_now ex_store]
       create_rejects_missing_fields [of "ex_form\<lparr>assigned_to := None\<rparr>" ex_now ex_store]
       create_rejects_missing_fields [of "ex_form\<lparr>description := []\<rparr>" ex_now ex_store] v
  show ?thesis by simp
qed

section \<open>Progress between 0 and 100\<close>

text \<open>
  C5. The specification says that after every create, update and import, every record
  has a progress between 0 and 100. The import installs the records of the document without looking
  at them: a document with a progress of 150 is imported with success.
\<close>

theorem import_admits_progress_out_of_range:
  "fst (import_handler
          (JSON (PDict [(''assignments'', PList [PDict [(''id'', PInt 1), (''progress_percentage'', PInt 150)]])]))
          init_state) = None \<and>
   \<not> progress_inv (snd (import_handler
          (JSON (PDict [(''assignments'', PList [PDict [(''id'', PInt 1), (''progress_percentage'', PInt 150)]])]))
          init_state))"
  by (simp add: import_handler_def init_state_def progress_inv_def progress_ok_def int_of_def)

text \<open>
  C5, as the code has it. If every record of the store has a progress between 0 and
  100, this is still so after a creation (the new record starts at 0) and after an
  update with a progress between 0 and 100, which is what the slider delivers, whatever
  the outcome of either. An import makes the store the value under the document's
  \<^verbatim>\<open>assignments\<close> key, unchecked.
\<close>

theorem progress_range_kept_by_create_and_update:
  assumes "progress_inv st" and "0 \<le> p" and "p \<le> 100"
  shows "progress_inv (snd (create_assignment f now st)) \<and>
         progress_inv (snd (update_assignment t s p h c now' st)) \<and>
         (\<forall>d a. py_getitem d ''assignments'' = Inr a \<longrightarrow>
                  assignments (snd (import_handler (JSON d) st)) = a)"
  using assms create_progress_inv update_progress_inv import_installs by blast

theorem progress_range_kept_by_create_and_update_witness:
  "progress_inv ex_store \<and>
   progress_inv (snd (create_assignment ex_form ex_now ex_store)) \<and>
   progress_inv (snd (update_assignment (IdInt 2) ''Completed'' 100 4 ''ok'' ex_now ex_store))"
proof -
  have h: "progress_inv ex_store"
    by (simp add: progress_inv_def ex_store_def ex_records_def progress_ok_def)
  from progress_range_kept_by_create_and_update [OF h, of 100 ex_form ex_now "IdInt 2" "''Completed''" 4 "''ok''" ex_now]
  show ?thesis using h by simp
qed

section \<open>Ids and the counter over a session\<close>




section \<open>The overdue metric\<close>

text \<open>
  C7. The specification says that for every set of records the overdue count is the
  number of records due before now. With an empty store the dashboard returns at line
  161 with a welcome message and computes no count at all.
\<close>

theorem dashboard_of_empty_store_shows_no_metric:
  "dashboard_metrics ex_now [] = None"
  by (simp add: dashboard_metrics_def)

text \<open>
  C7, as the code has it. For every non-empty store in which some record has a status
  and every record has a due date as the creation form writes it, and for every time,
  the dashboard computes its metrics, and the overdue count among them is the number of
  records whose due date, at midnight, lies strictly before that time. The status
  plays no part in it: after setting the status of every record to any value,
  Completed included, the overdue count is the same number.
\<close>

theorem overdue_counts_by_due_date_alone:
  assumes "rs \<noteq> []" and "\<forall>r\<in>set rs. has_due_date r"
    and "\<exists>r\<in>set rs. cell r ''status'' \<noteq> None"
  shows "dashboard_metrics now rs =
           Some (Inr \<lparr>total_assignments = length rs,
                      completed = length (filter (\<lambda>r. cell r ''status'' = Some (PStr ''Completed'')) rs),
                      in_progress = length (filter (\<lambda>r. cell r ''status'' = Some (PStr ''In Progress'')) rs),
                      overdue = length (filter (due_before now) rs)\<rparr>) \<and>
         (\<exists>m. dashboard_metrics now (map (AList.update ''status'' v) rs) = Some (Inr m) \<and>
              overdue m = length (filter (due_before now) rs))"
proof -
  let ?rs' = "map (AList.update ''status'' v) rs"
  have ne: "?rs' \<noteq> []" using assms(1) by simp
  have due: "\<forall>r\<in>set ?rs'. has_due_date r"
    using assms(2) by (simp add: has_due_date_def cell_update_other)
  have st: "\<exists>r\<in>set ?rs'. cell r ''status'' \<noteq> None"
    using assms(1) by (cases rs) (simp_all add: cell_def update_conv')
  have "due_before now (AList.update ''status'' v r) = due_before now r" for r
    by (simp add: due_before_def cell_update_other)
  then have "filter (due_before now) ?rs' = map (AList.update ''status'' v) (filter (due_before now) rs)"
    by (simp add: filter_map o_def)
  then have "length (filter (due_before now) ?rs') = length (filter (due_before now) rs)" by simp
  with dashboard_metrics_counts[OF ne due st, of now] dashboard_metrics_counts[OF assms, of now]
  show ?thesis by simp
qed

text \<open>
  Of the three example rows, the first is Completed and due on 2026-10-01, the second
  is due on 2026-11-05, the day of the example time 09:30, and the third later: the
  first two are counted, and the completed one alone is counted as well.
\<close>

theorem overdue_counts_by_due_date_alone_witness:
  "dashboard_metrics ex_now ex_rows =
     Some (Inr \<lparr>total_assignments = 3, completed = 1, in_progress = 1, overdue = 2\<rparr>) \<and>
   dashboard_metrics ex_now [hd ex_rows] =
     Some (Inr \<lparr>total_assignments = 1, completed = 1, in_progress = 0, overdue = 1\<rparr>)"
proof -
  have n: "ex_rows \<noteq> []" "[hd ex_rows] \<noteq> []" by (simp_all add: ex_rows_def)
  have d: "\<forall>r\<in>set ex_rows. has_due_date r"
    by (simp add: ex_rows_def has_due_date_def cell_def eval_date)
  then have d1: "\<forall>r\<in>set [hd ex_rows]. has_due_date r" by (simp add: ex_rows_def)
  have s: "\<exists>r\<in>set ex_rows. cell r ''status'' \<noteq> None"
    by (simp add: ex_rows_def cell_def)
  have s1: "\<exists>r\<in>set [hd ex_rows]. cell r ''status'' \<noteq> None"
    by (simp add: ex_rows_def cell_def)
  have c: "length (filter (due_before ex_now) ex_rows) = 2"
    "length (filter (\<lambda>r. cell r ''status'' = Some (PStr ''Completed'')) ex_rows) = 1"
    "length (filter (\<lambda>r. cell r ''status'' = Some (PStr ''In Progress'')) ex_rows) = 1"
    by (simp_all add: ex_rows_def due_before_def cell_def eval_date ex_now_def)
  have c1: "length (filter (due_before ex_now) [hd ex_rows]) = 1"
    "length (filter (\<lambda>r. cell r ''status'' = Some (PStr ''Completed'')) [hd ex_rows]) = 1"
    "length (filter (\<lambda>r. cell r ''status'' = Some (PStr ''In Progress'')) [hd ex_rows]) = 0"
    by (simp_all add: ex_rows_def due_before_def cell_def eval_date ex_now_def)
  have l: "length ex_rows = 3" "length [hd ex_rows] = 1" by (simp_all add: ex_rows_def)
  note a = overdue_counts_by_due_date_alone [OF n(1) d s, of ex_now, THEN conjunct1, unfolded c l]
  note b = overdue_counts_by_due_date_alone [OF n(2) d1 s1, of ex_now, THEN conjunct1, unfolded c1 l]
  from a b show ?thesis by (rule conjI)
qed

section \<open>What an update leaves alone\<close>

text \<open>
  C8. After a successful update the counter is unchanged, and one of two things is the
  case. Either no record of the store carries the id, and the store is unchanged. Or
  the store splits into the records before, one record, and the records after: none of
  the records before carries the id, the one record does, only that record is replaced,
  and all records before and after it stay as they were. The replaced record agrees
  with the old one on every key other than status, progress_percentage, actual_hours
  and comments, in particular on id, title, assigned_to, priority, category,
  description, deliverables, due_date and created_date, and it holds the status,
  progress and hours that were submitted. With an empty comment text the comments are
  unchanged. The form always submits a status and the hours; when they are the values
  the record already has (the form's defaults) and the comment is empty, so that only
  the progress is new, every key other than progress_percentage keeps its value.
\<close>

theorem update_frame:
  assumes "assignments st = PList xs"
    and "update_assignment target s p h c now st = (None, st')"
  shows "assignment_counter st' = assignment_counter st \<and>
         ((\<forall>a\<in>set xs. \<not> has_id target a) \<and> assignments st' = PList xs \<or>
          (\<exists>pre r post r'.
             xs = pre @ PDict r # post \<and> assignments st' = PList (pre @ PDict r' # post) \<and>
             (\<forall>a\<in>set pre. \<not> has_id target a) \<and> has_id target (PDict r) \<and>
             same_outside updated_keys r r' \<and>
             list_all (\<lambda>k. map_of r' k = map_of r k) fixed_keys \<and>
             map_of r' ''status'' = Some (PStr s) \<and>
             map_of r' ''progress_percentage'' = Some (PInt p) \<and>
             map_of r' ''actual_hours'' = Some (PInt h) \<and>
             (c = [] \<longrightarrow> map_of r' ''comments'' = map_of r ''comments'') \<and>
             (map_of r ''status'' = Some (PStr s) \<and> map_of r ''actual_hours'' = Some (PInt h) \<and> c = []
                \<longrightarrow> same_outside {''progress_percentage''} r r')))"
proof -
  obtain e ys where r: "update_loop target s p h c now xs = (e, ys)"
    by (cases "update_loop target s p h c now xs")
  with assms have e: "e = None" and st': "st' = st\<lparr>assignments := PList ys\<rparr>"
    by (auto simp: update_assignment_def)
  from update_loop_cases[OF r]
  have "(\<forall>a\<in>set xs. \<not> has_id target a) \<and> ys = xs \<or>
          (\<exists>pre r post r'.
             xs = pre @ PDict r # post \<and> ys = pre @ PDict r' # post \<and>
             (\<forall>a\<in>set pre. \<not> has_id target a) \<and> has_id target (PDict r) \<and>
             same_outside updated_keys r r' \<and>
             list_all (\<lambda>k. map_of r' k = map_of r k) fixed_keys \<and>
             map_of r' ''status'' = Some (PStr s) \<and>
             map_of r' ''progress_percentage'' = Some (PInt p) \<and>
             map_of r' ''actual_hours'' = Some (PInt h) \<and>
             (c = [] \<longrightarrow> map_of r' ''comments'' = map_of r ''comments'') \<and>
             (map_of r ''status'' = Some (PStr s) \<and> map_of r ''actual_hours'' = Some (PInt h) \<and> c = []
                \<longrightarrow> same_outside {''progress_percentage''} r r'))"
  proof
    assume "ys = xs \<and> (e = None \<longrightarrow> (\<forall>a\<in>set xs. \<not> has_id target a))"
    with e show ?thesis by simp
  next
    assume "\<exists>pre r post r'. xs = pre @ PDict r # post \<and> (\<forall>a\<in>set pre. \<not> has_id target a) \<and>
        has_id target (PDict r) \<and> update_record s p h c now r = (e, r') \<and> ys = pre @ PDict r' # post"
    then obtain pre r post r' where xs: "xs = pre @ PDict r # post"
      and pre: "\<forall>a\<in>set pre. \<not> has_id target a" and m: "has_id target (PDict r)"
      and u: "update_record s p h c now r = (e, r')"
      and ys: "ys = pre @ PDict r' # post" by blast
    have f: "same_outside updated_keys r r'" using u by (rule update_record_frame)
    then have k: "list_all (\<lambda>k. map_of r' k = map_of r k) fixed_keys"
      by (simp add: same_outside_def updated_keys_def fixed_keys_def)
    have cm: "map_of r' ''comments'' = map_of r ''comments''" if "c = []"
      using u that update_record_no_comment by blast
    have only: "same_outside {''progress_percentage''} r r'"
      if "map_of r ''status'' = Some (PStr s) \<and> map_of r ''actual_hours'' = Some (PInt h) \<and> c = []"
      unfolding same_outside_def
    proof (intro allI impI)
      fix k :: string assume "k \<notin> {''progress_percentage''}"
      show "map_of r' k = map_of r k"
      proof (cases "k \<in> updated_keys")
        case False
        with f show ?thesis by (simp add: same_outside_def)
      next
        case True
        with \<open>k \<notin> {''progress_percentage''}\<close>
        have "k = ''status'' \<or> k = ''actual_hours'' \<or> k = ''comments''"
          by (auto simp: updated_keys_def)
        with that cm update_record_fields[OF u] show ?thesis by auto
      qed
    qed
    from xs ys pre m f k cm only update_record_fields[OF u] show ?thesis by blast
  qed
  with st' show ?thesis by auto
qed

text \<open>
  On the example store, whose second and third records both carry the id 2, an update
  of id 2 that submits the second record's own status and hours, no comment and a
  progress of 40 replaces the second record only, and there only the progress.
\<close>

theorem update_frame_witness:
  "update_assignment (IdInt 2) ''Not Started'' 40 0 [] ex_now ex_store
     = (None, ex_store\<lparr>assignments := PList
          [ex_records ! 0,
           PDict [(''id'', PInt 2), (''title'', PStr ''B''), (''status'', PStr ''Not Started''),
                  (''actual_hours'', PInt 0), (''progress_percentage'', PInt 40),
                  (''comments'', PList [])],
           ex_records ! 2]\<rparr>) \<and>
   assignment_counter (ex_store\<lparr>assignments := PList
          [ex_records ! 0,
           PDict [(''id'', PInt 2), (''title'', PStr ''B''), (''status'', PStr ''Not Started''),
                  (''actual_hours'', PInt 0), (''progress_percentage'', PInt 40),
                  (''comments'', PList [])],
           ex_records ! 2]\<rparr>) = assignment_counter ex_store"
proof -
  have h1: "assignments ex_store = PList ex_records" by (simp add: ex_store_def)
  have h2: "update_assignment (IdInt 2) ''Not Started'' 40 0 [] ex_now ex_store
     = (None, ex_store\<lparr>assignments := PList
          [ex_records ! 0,
           PDict [(''id'', PInt 2), (''title'', PStr ''B''), (''status'', PStr ''Not Started''),
                  (''actual_hours'', PInt 0), (''progress_percentage'', PInt 40),
                  (''comments'', PList [])],
           ex_records ! 2]\<rparr>)"
    by (simp add: ex_store_def ex_records_def ex_now_def eval_update)
  from update_frame[OF h1 h2] h2 show ?thesis by blast
qed

section \<open>Listing with filters\<close>

text \<open>
  C9. For every store whose records have an engineer, a status and a priority, and
  every choice of the three filters, the list page shows exactly the records that pass
  every filter not set to "All", in store order. With all three set to "All" it shows
  the whole store in its order, and a status that no record has gives the empty list.
\<close>

theorem list_returns_matching_records_in_order:
  assumes "\<forall>r\<in>set rs. has_filter_columns r"
  shows "manage_filter fe fs fp rs = Inr (filter (matches fe fs fp) rs) \<and>
         manage_filter ''All'' ''All'' ''All'' rs = Inr rs \<and>
         (fs \<noteq> ''All'' \<and> (\<forall>r\<in>set rs. cell r ''status'' \<noteq> Some (PStr fs)) \<longrightarrow>
            manage_filter fe fs fp rs = Inr [])"
proof -
  note m = manage_filter_matches[OF assms]
  have "filter (matches ''All'' ''All'' ''All'') rs = rs" by (simp add: matches_def)
  moreover have "filter (matches fe fs fp) rs = []"
    if "fs \<noteq> ''All'' \<and> (\<forall>r\<in>set rs. cell r ''status'' \<noteq> Some (PStr fs))"
    using that by (auto simp: matches_def filter_empty_conv)
  ultimately show ?thesis using m by simp
qed

theorem list_returns_matching_records_in_order_witness:
  "manage_filter ''Chief Engineer (Telecom)'' ''All'' ''High'' ex_rows = Inr [hd ex_rows] \<and>
   manage_filter ''All'' ''All'' ''All'' ex_rows = Inr ex_rows \<and>
   manage_filter ''All'' ''On Hold'' ''All'' ex_rows = Inr []"
proof -
  have h: "\<forall>r\<in>set ex_rows. has_filter_columns r"
    by (simp add: ex_rows_def has_filter_columns_def cell_def)
  have f: "filter (matches ''Chief Engineer (Telecom)'' ''All'' ''High'') ex_rows = [hd ex_rows]"
    by (simp add: ex_rows_def matches_def cell_def)
  have n: "''On Hold'' \<noteq> ''All'' \<and> (\<forall>r\<in>set ex_rows. cell r ''status'' \<noteq> Some (PStr ''On Hold''))"
    by (simp add: ex_rows_def cell_def)
  from list_returns_matching_records_in_order [OF h, of "''Chief Engineer (Telecom)''" "''All''" "''High''"]
       list_returns_matching_records_in_order [OF h, of "''All''" "''On Hold''" "''All''"] f n
  show ?thesis by metis
qed

section \<open>An update changes at most one record\<close>

text \<open>
  C10. Whatever the store list holds, records with equal ids included, an update leaves
  the list's length unchanged, and a position whose record differs afterwards is the
  first position, in store order, whose record matches the id. Every later record
  with that id is therefore unchanged. This holds for every outcome of the update, in
  particular the successful one.
\<close>

theorem update_first_match_only:
  assumes "assignments st = PList xs"
  shows "\<exists>ys. assignments (snd (update_assignment target s p h c now st)) = PList ys \<and>
           length ys = length xs \<and>
           (\<forall>j<length xs. ys ! j \<noteq> xs ! j \<longrightarrow>
              has_id target (xs ! j) \<and> (\<forall>i<j. \<not> has_id target (xs ! i)))"
proof -
  obtain e ys where r: "update_loop target s p h c now xs = (e, ys)"
    by (cases "update_loop target s p h c now xs")
  have st': "assignments (snd (update_assignment target s p h c now st)) = PList ys"
    using assms r by (simp add: update_assignment_def)
  from update_loop_cases[OF r]
  have "length ys = length xs \<and>
           (\<forall>j<length xs. ys ! j \<noteq> xs ! j \<longrightarrow>
              has_id target (xs ! j) \<and> (\<forall>i<j. \<not> has_id target (xs ! i)))"
  proof
    assume "ys = xs \<and> (e = None \<longrightarrow> (\<forall>a\<in>set xs. \<not> has_id target a))"
    then show ?thesis by simp
  next
    assume "\<exists>pre r post r'. xs = pre @ PDict r # post \<and> (\<forall>a\<in>set pre. \<not> has_id target a) \<and>
        has_id target (PDict r) \<and> update_record s p h c now r = (e, r') \<and> ys = pre @ PDict r' # post"
    then obtain pre r post r' where xs: "xs = pre @ PDict r # post"
      and pre: "\<forall>a\<in>set pre. \<not> has_id target a" and m: "has_id target (PDict r)"
      and ys: "ys = pre @ PDict r' # post" by blast
    have "has_id target (xs ! j) \<and> (\<forall>i<j. \<not> has_id target (xs ! i))"
      if "j < length xs" "ys ! j \<noteq> xs ! j" for j
    proof -
      have j: "j = length pre"
        using that xs ys by (auto simp: nth_append nth_Cons split: if_splits nat.splits)
      have "\<not> has_id target (xs ! i)" if "i < j" for i
        using that j pre xs by (simp add: nth_append)
      with j m xs show ?thesis by simp
    qed
    with xs ys show ?thesis by simp
  qed
  with st' show ?thesis by blast
qed

theorem update_first_match_only_witness:
  "\<exists>ys. assignments (snd (update_assignment (IdInt 2) ''Completed'' 100 4 ''ok'' ex_now ex_store))
          = PList ys \<and> length ys = 3 \<and> ys ! 2 = ex_records ! 2"
proof -
  have h1: "assignments ex_store = PList ex_records" by (simp add: ex_store_def)
  have len: "length ex_records = 3" by (simp add: ex_records_def)
  have m: "has_id (IdInt 2) (ex_records ! 1)"
    by (simp add: ex_records_def has_id_def record_id_def)
  from update_first_match_only[OF h1, of "IdInt 2" "''Completed''" 100 4 "''ok''" "ex_now"]
  obtain ys where a: "assignments (snd (update_assignment (IdInt 2) ''Completed'' 100 4 ''ok'' ex_now ex_store)) = PList ys"
    and l: "length ys = length ex_records"
    and f: "\<forall>j<length ex_records. ys ! j \<noteq> ex_records ! j \<longrightarrow>
              has_id (IdInt 2) (ex_records ! j) \<and> (\<forall>i<j. \<not> has_id (IdInt 2) (ex_records ! i))"
    by blast
  have "ys ! 2 = ex_records ! 2"
  proof (rule ccontr)
    assume "ys ! 2 \<noteq> ex_records ! 2"
    moreover have "(2::nat) < length ex_records" using len by simp
    ultimately have "\<forall>i<2. \<not> has_id (IdInt 2) (ex_records ! i)" using f by blast
    then have "\<not> has_id (IdInt 2) (ex_records ! 1)" by simp
    with m show False by simp
  qed
  with a l len show ?thesis by simp
qed

end
